theory Spec2Isabelle
  imports Complex_Main "HOL-Library.Multiset"
begin

section \<open>Data model of the paper-trading ledger (src/main.py)\<close>

text \<open>
  A portfolio entry is the dictionary built at lines 112--117 of \<^verbatim>\<open>main.py\<close>, with the
  keys \<^verbatim>\<open>'Stock'\<close>, \<^verbatim>\<open>'Quantity'\<close>, \<^verbatim>\<open>'Buy Price'\<close> and \<^verbatim>\<open>'Buy Date'\<close>.
  The quantity is a Python \<^verbatim>\<open>int\<close> (unbounded). Prices are Python floats; they are
  modelled by exact rationals, so rounding of floating-point arithmetic is outside the
  model. \<^verbatim>\<open>'Buy Price'\<close> holds whatever \<^verbatim>\<open>get_latest_price\<close> returned, which is
  \<^verbatim>\<open>None\<close> when no price was available: the field is an option.
\<close>

record lot =
  Stock :: string
  Quantity :: int
  Buy_Price :: "rat option"
  Buy_Date :: string

type_synonym ledger = "lot list"

datatype py_error = TypeError | ValueError

subsection \<open>The portfolio file\<close>

text \<open>
  \<^verbatim>\<open>json.dump\<close> and \<^verbatim>\<open>json.load\<close> belong to the Python library. The file content is
  modelled as the JSON document that the text denotes; the textual layer (indentation,
  string escapes, the decimal rendering of floats) is not modelled.
\<close>

datatype json =
    JNull
  | JInt int
  | JNum rat
  | JStr string
  | JArr "json list"
  | JObj "(string \<times> json) list"

text \<open>
  The disk holds \<^verbatim>\<open>portfolio.json\<close>: \<open>content = None\<close> when the file does not exist.
  \<open>writes\<close> counts the calls of \<^verbatim>\<open>save_portfolio\<close>, so that "no save occurs" can be
  told apart from a save of equal content.
\<close>

record disk =
  content :: "json option"
  writes :: nat

definition price_to_json :: "rat option \<Rightarrow> json" where
  "price_to_json p = (case p of None \<Rightarrow> JNull | Some r \<Rightarrow> JNum r)"

definition lot_to_json :: "lot \<Rightarrow> json" where
  "lot_to_json entry =
     JObj [(''Stock'', JStr (Stock entry)),
           (''Quantity'', JInt (Quantity entry)),
           (''Buy Price'', price_to_json (Buy_Price entry)),
           (''Buy Date'', JStr (Buy_Date entry))]"

definition json_dump :: "ledger \<Rightarrow> json" where
  "json_dump portfolio = JArr (map lot_to_json portfolio)"

fun lot_of_json :: "json \<Rightarrow> lot option" where
  "lot_of_json (JObj [(k1, JStr s), (k2, JInt q), (k3, JNum p), (k4, JStr d)]) =
     (if k1 = ''Stock'' \<and> k2 = ''Quantity'' \<and> k3 = ''Buy Price'' \<and> k4 = ''Buy Date''
      then Some \<lparr>Stock = s, Quantity = q, Buy_Price = Some p, Buy_Date = d\<rparr> else None)"
| "lot_of_json (JObj [(k1, JStr s), (k2, JInt q), (k3, JNull), (k4, JStr d)]) =
     (if k1 = ''Stock'' \<and> k2 = ''Quantity'' \<and> k3 = ''Buy Price'' \<and> k4 = ''Buy Date''
      then Some \<lparr>Stock = s, Quantity = q, Buy_Price = None, Buy_Date = d\<rparr> else None)"
| "lot_of_json _ = None"

fun lots_of_json :: "json list \<Rightarrow> ledger option" where
  "lots_of_json [] = Some []"
| "lots_of_json (j # js) =
     (case lot_of_json j of
        None \<Rightarrow> None
      | Some entry \<Rightarrow> (case lots_of_json js of None \<Rightarrow> None | Some rest \<Rightarrow> Some (entry # rest)))"

text \<open>
  \<^verbatim>\<open>json.load\<close> returns the Python value of the document. A document that is not a
  list of entries of the shape above is outside the data model; the model reports it
  as \<open>ValueError\<close>.
\<close>

definition json_load :: "json \<Rightarrow> py_error + ledger" where
  "json_load j =
     (case j of
        JArr js \<Rightarrow> (case lots_of_json js of None \<Rightarrow> Inl ValueError | Some p \<Rightarrow> Inr p)
      | _ \<Rightarrow> Inl ValueError)"

text \<open>Lines 29--33: the file is read when it exists, otherwise the ledger is empty.\<close>

definition load_portfolio :: "disk \<Rightarrow> py_error + ledger" where
  "load_portfolio d = (case content d of Some j \<Rightarrow> json_load j | None \<Rightarrow> Inr [])"

text \<open>Lines 36--38: the file is opened for writing and replaced by the dump.\<close>

definition save_portfolio :: "ledger \<Rightarrow> disk \<Rightarrow> disk" where
  "save_portfolio portfolio d = \<lparr>content = Some (json_dump portfolio), writes = Suc (writes d)\<rparr>"

subsection \<open>Session state, price oracle, messages\<close>

text \<open>
  \<open>portfolio\<close> is \<^verbatim>\<open>st.session_state.portfolio\<close>; \<open>store\<close> is the disk.
\<close>

record app_state =
  portfolio :: ledger
  store :: disk

text \<open>
  The market-data client is external. \<open>history_nonempty s\<close> says whether the six-month
  history fetched at line 93 is non-empty; \<open>latest s\<close> is the result of
  \<^verbatim>\<open>get_latest_price\<close> (lines 22--26): \<open>None\<close> when the one-day frame is empty.
\<close>

record price_oracle =
  history_nonempty :: "string \<Rightarrow> bool"
  latest :: "string \<Rightarrow> rat option"

text \<open>
  What a block shows to the user: one of the \<^verbatim>\<open>st.success\<close> / \<^verbatim>\<open>st.error\<close> messages
  of \<^verbatim>\<open>main\<close>, an uncaught Python exception, or nothing.
\<close>

datatype notice =
    Bought int string rat
  | Sold int string rat rat
  | Not_Enough_Quantity
  | Failed_To_Fetch_Price
  | Portfolio_Cleared

datatype outcome = Success notice | Error notice | Raises py_error | Silent

section \<open>Sell (lines 136--158, 166--167)\<close>

text \<open>
  The \<^verbatim>\<open>for\<close> loop of lines 142--158 over the entries, in list order. Entries of
  another stock are skipped. At the first entry of the stock the loop ends in either
  branch (both end in \<^verbatim>\<open>break\<close>): with enough quantity the entry is decremented in
  place and the portfolio saved; otherwise the error is shown. Line 147 subtracts the
  buy price before line 148 mutates, so a buy price of \<^verbatim>\<open>None\<close> raises
  \<^verbatim>\<open>TypeError\<close> with nothing changed. The result is the message, the entries, and
  whether \<^verbatim>\<open>save_portfolio\<close> was called.
\<close>

fun sell_loop :: "string \<Rightarrow> int \<Rightarrow> rat \<Rightarrow> ledger \<Rightarrow> outcome \<times> ledger \<times> bool" where
  "sell_loop stock_to_sell quantity_to_sell sell_price [] = (Silent, [], False)"
| "sell_loop stock_to_sell quantity_to_sell sell_price (entry # rest) =
     (if Stock entry = stock_to_sell then
        (if Quantity entry \<ge> quantity_to_sell then
           (case Buy_Price entry of
              None \<Rightarrow> (Raises TypeError, entry # rest, False)
            | Some buy_price \<Rightarrow>
                (Success (Sold quantity_to_sell stock_to_sell sell_price
                            ((sell_price - buy_price) * of_int quantity_to_sell)),
                 entry\<lparr>Quantity := Quantity entry - quantity_to_sell\<rparr> # rest,
                 True))
         else (Error Not_Enough_Quantity, entry # rest, False))
      else
        (case sell_loop stock_to_sell quantity_to_sell sell_price rest of
           (out, rest', saved) \<Rightarrow> (out, entry # rest', saved)))"

text \<open>
  The handler of the Sell button: the price is fetched at line 138; without a price the
  error of line 167 is shown and the loop does not run. The refresh of the display
  (lines 160--165) is presentation and is covered by \<open>calculate_totals\<close> below.
\<close>

definition sell :: "price_oracle \<Rightarrow> string \<Rightarrow> int \<Rightarrow> app_state \<Rightarrow> outcome \<times> app_state" where
  "sell orc stock_to_sell quantity_to_sell st =
     (case latest orc stock_to_sell of
        None \<Rightarrow> (Error Failed_To_Fetch_Price, st)
      | Some sell_price \<Rightarrow>
          (case sell_loop stock_to_sell quantity_to_sell sell_price (portfolio st) of
             (out, entries, saved) \<Rightarrow>
               (out, \<lparr>portfolio = entries,
                      store = (if saved then save_portfolio entries (store st) else store st)\<rparr>)))"

section \<open>Buy (lines 91--119) and Clear (lines 170--173)\<close>

text \<open>
  Line 89 upper-cases the typed text. \<open>upper\<close> maps the ASCII letters a--z to A--Z and
  keeps every other byte, which is what \<^verbatim>\<open>str.upper\<close> does on ASCII text (ticker
  symbols); Python's mapping of non-ASCII letters is not modelled.
  The Buy button exists only when the symbol is non-empty (line 91) and its six-month
  history is non-empty (line 95). \<open>latest_price\<close> is fetched at line 97 and tested
  for \<^verbatim>\<open>None\<close> only around the headline (lines 98--102). The handler appends the
  entry, saves, and then formats the price with \<^verbatim>\<open>:.2f\<close> at line 119, which raises
  \<^verbatim>\<open>TypeError\<close> on \<^verbatim>\<open>None\<close>.
  \<open>today\<close> is \<^verbatim>\<open>datetime.now().strftime("%Y-%m-%d")\<close>.
\<close>

definition upper_char :: "char \<Rightarrow> char" where
  "upper_char c =
     (let n = (of_char c :: nat) in if 97 \<le> n \<and> n \<le> 122 then char_of (n - 32) else c)"

definition upper :: "string \<Rightarrow> string" where
  "upper text = map upper_char text"

definition buy :: "price_oracle \<Rightarrow> string \<Rightarrow> int \<Rightarrow> string \<Rightarrow> app_state \<Rightarrow> outcome \<times> app_state" where
  "buy orc text quantity_to_buy today st =
     (let stock_symbol = upper text
      in if stock_symbol = [] then (Silent, st)
      else if \<not> history_nonempty orc stock_symbol then (Silent, st)
      else
        (let latest_price = latest orc stock_symbol;
             entries = portfolio st @
               [\<lparr>Stock = stock_symbol, Quantity = quantity_to_buy,
                 Buy_Price = latest_price, Buy_Date = today\<rparr>];
             st' = \<lparr>portfolio = entries, store = save_portfolio entries (store st)\<rparr>
         in (case latest_price of
               None \<Rightarrow> (Raises TypeError, st')
             | Some p \<Rightarrow> (Success (Bought quantity_to_buy stock_symbol p), st'))))"

definition clear :: "app_state \<Rightarrow> outcome \<times> app_state" where
  "clear st = (Success Portfolio_Cleared, \<lparr>portfolio = [], store = save_portfolio [] (store st)\<rparr>)"

section \<open>Aggregation: \<^verbatim>\<open>calculate_totals\<close> (lines 41--69)\<close>

subsection \<open>The format \<^verbatim>\<open>:.2f\<close> and the rupee sign\<close>

text \<open>
  \<^verbatim>\<open>f"{x:.2f}"\<close> prints the value rounded to two decimals, ties to even, with a
  minus sign for a negative value. The rupee sign U+20B9 is three bytes in UTF-8.
\<close>

definition round_half_even :: "rat \<Rightarrow> int" where
  "round_half_even x =
     (let f = \<lfloor>x\<rfloor>; d = x - of_int f
      in if d < 1 / 2 then f else if 1 / 2 < d then f + 1 else if even f then f else f + 1)"

definition digit :: "nat \<Rightarrow> char" where
  "digit d = char_of (48 + d)"

fun digits10 :: "nat \<Rightarrow> string" where
  "digits10 n = (if n < 10 then [digit n] else digits10 (n div 10) @ [digit (n mod 10)])"

definition fmt2 :: "rat \<Rightarrow> string" where
  "fmt2 x =
     (let n = nat (round_half_even (\<bar>x\<bar> * 100))
      in (if x < 0 then ''-'' else []) @ digits10 (n div 100) @ ''.'' @
         [digit (n mod 100 div 10), digit (n mod 10)])"

definition rupee :: string where
  "rupee = [CHR 0xE2, CHR 0x82, CHR 0xB9]"

subsection \<open>One row of the table\<close>

text \<open>The dictionary appended at lines 58--64.\<close>

record position =
  pos_Stock :: string
  pos_Quantity :: int
  Total_Invested :: string
  Current_Value :: string
  Profit_Loss :: string

text \<open>Line 47: the entries of one stock, compared with \<^verbatim>\<open>==\<close> on the symbol string.\<close>

definition stock_entries :: "ledger \<Rightarrow> string \<Rightarrow> ledger" where
  "stock_entries pf stock = filter (\<lambda>entry. Stock entry = stock) pf"

text \<open>Line 48.\<close>

definition total_quantity :: "ledger \<Rightarrow> int" where
  "total_quantity es = sum_list (map Quantity es)"

text \<open>
  Line 49: \<^verbatim>\<open>entry['Buy Price'] * entry['Quantity']\<close> raises \<^verbatim>\<open>TypeError\<close> when the price is
  \<^verbatim>\<open>None\<close>; the sum starts from 0 and adds the products in order.
\<close>

fun total_invested_stock :: "ledger \<Rightarrow> py_error + rat" where
  "total_invested_stock [] = Inr 0"
| "total_invested_stock (entry # es) =
     (case Buy_Price entry of
        None \<Rightarrow> Inl TypeError
      | Some p \<Rightarrow>
          (case total_invested_stock es of
             Inl e \<Rightarrow> Inl e
           | Inr s \<Rightarrow> Inr (p * of_int (Quantity entry) + s)))"

text \<open>Lines 50--56: value and profit of one stock, given what was invested.\<close>

definition valuation :: "price_oracle \<Rightarrow> string \<Rightarrow> int \<Rightarrow> rat \<Rightarrow> rat \<times> rat" where
  "valuation orc stock tq invested =
     (case latest orc stock of
        Some latest_price \<Rightarrow>
          (of_int tq * latest_price, of_int tq * latest_price - invested)
      | None \<Rightarrow> (invested, 0))"

text \<open>
  The body of the loop (lines 47--67) for one stock, on the three accumulators
  \<open>stock_totals\<close>, \<open>total_invested\<close> and \<open>total_profit_loss\<close>.
\<close>

definition totals_step ::
  "price_oracle \<Rightarrow> ledger \<Rightarrow> string \<Rightarrow> position list \<times> rat \<times> rat
     \<Rightarrow> py_error + position list \<times> rat \<times> rat" where
  "totals_step orc pf stock acc =
     (case acc of (stock_totals, total_invested, total_profit_loss) \<Rightarrow>
        (case total_invested_stock (stock_entries pf stock) of
           Inl e \<Rightarrow> Inl e
         | Inr invested \<Rightarrow>
             (let tq = total_quantity (stock_entries pf stock);
                  (total_current_value, profit_loss) = valuation orc stock tq invested
              in Inr (stock_totals @
                        [\<lparr>pos_Stock = stock, pos_Quantity = tq,
                          Total_Invested = rupee @ fmt2 invested,
                          Current_Value = rupee @ fmt2 total_current_value,
                          Profit_Loss = rupee @ fmt2 profit_loss\<rparr>],
                      total_invested + invested,
                      total_profit_loss + profit_loss))))"

fun totals_loop ::
  "price_oracle \<Rightarrow> ledger \<Rightarrow> string list \<Rightarrow> position list \<times> rat \<times> rat
     \<Rightarrow> py_error + position list \<times> rat \<times> rat" where
  "totals_loop orc pf [] acc = Inr acc"
| "totals_loop orc pf (stock # stocks) acc =
     (case totals_step orc pf stock acc of
        Inl e \<Rightarrow> Inl e
      | Inr acc' \<Rightarrow> totals_loop orc pf stocks acc')"

text \<open>
  Line 46 iterates over \<^verbatim>\<open>set(item['Stock'] for item in portfolio)\<close>. Python fixes no
  order for a set of strings, so the order of iteration is a parameter: any list
  \<open>stocks\<close> that holds each stock of the portfolio once.
\<close>

definition iteration_of :: "ledger \<Rightarrow> string list \<Rightarrow> bool" where
  "iteration_of pf stocks \<longleftrightarrow> distinct stocks \<and> set stocks = set (map Stock pf)"

definition calculate_totals ::
  "price_oracle \<Rightarrow> ledger \<Rightarrow> string list \<Rightarrow> py_error + position list \<times> rat \<times> rat" where
  "calculate_totals orc pf stocks = totals_loop orc pf stocks ([], 0, 0)"

section \<open>Notions used in the statements\<close>

text \<open>The invariant of the data model: no entry has a negative quantity.\<close>

definition quantities_nonneg :: "ledger \<Rightarrow> bool" where
  "quantities_nonneg pf = list_all (\<lambda>e. 0 \<le> Quantity e) pf"

text \<open>
  A ledger of the data model: every entry carries a buy price (a number, not
  \<^verbatim>\<open>None\<close>).
\<close>

definition priced :: "ledger \<Rightarrow> bool" where
  "priced pf = list_all (\<lambda>e. Buy_Price e \<noteq> None) pf"

text \<open>No entry with a negative buy price.\<close>

definition prices_nonneg :: "ledger \<Rightarrow> bool" where
  "prices_nonneg pf = list_all (\<lambda>e. case Buy_Price e of None \<Rightarrow> True | Some p \<Rightarrow> 0 \<le> p) pf"

text \<open>
  The amount invested in one entry, quantity times buy price, and the sum over a
  list of entries. On a priced ledger the \<open>None\<close> case does not arise.
\<close>

definition lot_cost :: "lot \<Rightarrow> rat" where
  "lot_cost e = (case Buy_Price e of Some p \<Rightarrow> p * of_int (Quantity e) | None \<Rightarrow> 0)"

definition cost_basis :: "ledger \<Rightarrow> rat" where
  "cost_basis pf = sum_list (map lot_cost pf)"

text \<open>
  The numbers behind one row of the table: the current value and the profit of a
  stock, and the row itself as \<open>calculate_totals\<close> formats it.
\<close>

definition value_of :: "price_oracle \<Rightarrow> ledger \<Rightarrow> string \<Rightarrow> rat" where
  "value_of orc pf stock =
     (case latest orc stock of
        None \<Rightarrow> cost_basis (stock_entries pf stock)
      | Some latest_price \<Rightarrow> of_int (total_quantity (stock_entries pf stock)) * latest_price)"

definition profit_of :: "price_oracle \<Rightarrow> ledger \<Rightarrow> string \<Rightarrow> rat" where
  "profit_of orc pf stock =
     (case latest orc stock of
        None \<Rightarrow> 0
      | Some latest_price \<Rightarrow>
          of_int (total_quantity (stock_entries pf stock)) * latest_price
            - cost_basis (stock_entries pf stock))"

definition row_of :: "price_oracle \<Rightarrow> ledger \<Rightarrow> string \<Rightarrow> position" where
  "row_of orc pf stock =
     \<lparr>pos_Stock = stock,
      pos_Quantity = total_quantity (stock_entries pf stock),
      Total_Invested = rupee @ fmt2 (cost_basis (stock_entries pf stock)),
      Current_Value = rupee @ fmt2 (value_of orc pf stock),
      Profit_Loss = rupee @ fmt2 (profit_of orc pf stock)\<rparr>"

subsection \<open>Concrete ledgers and markets\<close>

text \<open>
  A market in which every symbol has a history and only \<^verbatim>\<open>X\<close> has a latest price,
  120; an entry bought on a fixed day; a session whose portfolio file does not exist.
\<close>

definition listed :: "string \<Rightarrow> bool" where
  "listed s = True"

definition market_X :: price_oracle where
  "market_X = \<lparr>history_nonempty = listed, latest = map_of [(''X'', 120)]\<rparr>"

definition bought :: "string \<Rightarrow> int \<Rightarrow> rat \<Rightarrow> lot" where
  "bought s q p = \<lparr>Stock = s, Quantity = q, Buy_Price = Some p, Buy_Date = ''2024-01-02''\<rparr>"

definition fresh :: "ledger \<Rightarrow> app_state" where
  "fresh pf = \<lparr>portfolio = pf, store = \<lparr>content = None, writes = 0\<rparr>\<rparr>"

section \<open>Lemmas about the sell loop\<close>

lemma sell_loop_skip:
  "\<forall>x\<in>set pre. Stock x \<noteq> s \<Longrightarrow>
     sell_loop s q sp (pre @ rest) =
       (case sell_loop s q sp rest of (out, rest', saved) \<Rightarrow> (out, pre @ rest', saved))"
  by (induction pre) (auto split: prod.splits)

lemma sell_loop_outcome:
  "fst (sell_loop s q sp pf) =
     (case find (\<lambda>x. Stock x = s) pf of
        None \<Rightarrow> Silent
      | Some e \<Rightarrow>
          if q \<le> Quantity e
          then (case Buy_Price e of
                  None \<Rightarrow> Raises TypeError
                | Some bp \<Rightarrow> Success (Sold q s sp ((sp - bp) * of_int q)))
          else Error Not_Enough_Quantity)"
  by (induction pf) (auto split: prod.splits option.splits)

lemma sell_loop_saved_iff:
  "snd (snd (sell_loop s q sp pf)) \<longleftrightarrow> (\<exists>n. fst (sell_loop s q sp pf) = Success n)"
  by (induction pf) (auto split: prod.splits option.splits)

lemma sell_loop_unsaved:
  "\<not> snd (snd (sell_loop s q sp pf)) \<Longrightarrow> fst (snd (sell_loop s q sp pf)) = pf"
  by (induction pf) (auto split: prod.splits option.splits if_splits)

lemma sell_loop_absent:
  "s \<notin> Stock ` set pf \<Longrightarrow> sell_loop s q sp pf = (Silent, pf, False)"
  by (induction pf) auto

lemma sell_loop_nonneg:
  "quantities_nonneg pf \<Longrightarrow> quantities_nonneg (fst (snd (sell_loop s q sp pf)))"
  by (induction pf) (auto simp: quantities_nonneg_def split: prod.splits option.splits)

text \<open>A refused sale: the message decides that nothing was written.\<close>

lemma sell_loop_refused:
  assumes "fst (sell_loop s q sp pf) = Error Not_Enough_Quantity"
  shows "sell_loop s q sp pf = (Error Not_Enough_Quantity, pf, False)"
proof -
  have unsaved: "\<not> snd (snd (sell_loop s q sp pf))"
    using assms by (simp add: sell_loop_saved_iff)
  then have "fst (snd (sell_loop s q sp pf)) = pf"
    by (rule sell_loop_unsaved)
  with assms unsaved show ?thesis
    by (cases "sell_loop s q sp pf") auto
qed

section \<open>Claims about selling\<close>

text \<open>
  Claim C1, as the code has it. With a sell price available, the sale is decided at the
  first entry of the stock in ledger order (the entry \<open>e\<close> after a prefix \<open>pre\<close> of
  other stocks). When that entry holds at least the requested quantity, exactly this
  entry is decremented by the quantity, the reported profit is
  \<open>(sell_price - buy_price) * quantity\<close>, every other entry is unchanged and the
  portfolio is saved. When it holds less, the sale is refused and nothing changes,
  whatever the later entries of the stock hold.
\<close>

theorem sell_first_lot_of_stock:
  assumes "latest orc s = Some sp"
    and "portfolio st = pre @ e # post"
    and "\<forall>x\<in>set pre. Stock x \<noteq> s"
    and "Stock e = s"
    and "Buy_Price e = Some bp"
  shows "sell orc s q st =
           (if q \<le> Quantity e
            then (Success (Sold q s sp ((sp - bp) * of_int q)),
                  \<lparr>portfolio = pre @ e\<lparr>Quantity := Quantity e - q\<rparr> # post,
                   store = save_portfolio (pre @ e\<lparr>Quantity := Quantity e - q\<rparr> # post) (store st)\<rparr>)
            else (Error Not_Enough_Quantity, st))"
  using assms by (simp add: sell_def sell_loop_skip)

text \<open>
  The example of the specification, behind an entry of another stock: 4 of 10 shares
  bought at 100 are sold at 120, leaving 6 and a profit of 80.
\<close>

theorem sell_first_lot_of_stock_witness:
  "sell market_X ''X'' 4 (fresh [bought ''Y'' 2 50, bought ''X'' 10 100, bought ''X'' 7 110]) =
     (Success (Sold 4 ''X'' 120 80),
      \<lparr>portfolio = [bought ''Y'' 2 50, bought ''X'' 6 100, bought ''X'' 7 110],
       store = \<lparr>content = Some (json_dump [bought ''Y'' 2 50, bought ''X'' 6 100, bought ''X'' 7 110]),
                writes = 1\<rparr>\<rparr>)"
  using sell_first_lot_of_stock [of market_X "''X''" 120
          "fresh [bought ''Y'' 2 50, bought ''X'' 10 100, bought ''X'' 7 110]"
          "[bought ''Y'' 2 50]" "bought ''X'' 10 100" "[bought ''X'' 7 110]" 100 4]
  by (simp add: market_X_def fresh_def bought_def save_portfolio_def)

text \<open>
  Claim C1 as stated says that a later entry which covers the quantity takes the sale
  when the first one cannot. With entries of 3 and 5 shares, a sale of 4 is refused and
  the second entry keeps its 5 shares.
\<close>

theorem sell_later_lot_counterexample:
  "sell market_X ''X'' 4 (fresh [bought ''X'' 3 100, bought ''X'' 5 100]) =
     (Error Not_Enough_Quantity, fresh [bought ''X'' 3 100, bought ''X'' 5 100])
   \<and> Stock (bought ''X'' 5 100) = ''X'' \<and> 4 \<le> Quantity (bought ''X'' 5 100)"
  by (simp add: sell_def market_X_def fresh_def bought_def)

text \<open>
  Claim C3, as the code has it. With a sell price available, the sale fails with
  "Not enough quantity" exactly when the stock has an entry and the first entry of the
  stock holds less than the requested quantity; on that failure the portfolio and the
  disk are as before (no entry changed, no save).
\<close>

theorem sell_refused_iff_first_lot_short:
  assumes "latest orc s = Some sp"
  shows "(fst (sell orc s q st) = Error Not_Enough_Quantity \<longleftrightarrow>
            (case find (\<lambda>x. Stock x = s) (portfolio st) of
               None \<Rightarrow> False
             | Some e \<Rightarrow> Quantity e < q))
         \<and> (fst (sell orc s q st) = Error Not_Enough_Quantity \<longrightarrow> snd (sell orc s q st) = st)"
proof -
  have out: "fst (sell orc s q st) = fst (sell_loop s q sp (portfolio st))"
    using assms by (simp add: sell_def split: prod.splits)
  have iff: "fst (sell_loop s q sp (portfolio st)) = Error Not_Enough_Quantity \<longleftrightarrow>
            (case find (\<lambda>x. Stock x = s) (portfolio st) of
               None \<Rightarrow> False
             | Some e \<Rightarrow> Quantity e < q)"
    unfolding sell_loop_outcome by (auto split: option.splits)
  have same: "snd (sell orc s q st) = st"
    if "fst (sell_loop s q sp (portfolio st)) = Error Not_Enough_Quantity"
    using sell_loop_refused[OF that] assms by (simp add: sell_def)
  show ?thesis using out iff same by simp
qed

text \<open>
  The example of the specification: entries of 3 and 3 shares, a sale of 4 fails.
\<close>

theorem sell_refused_iff_first_lot_short_witness:
  "fst (sell market_X ''X'' 4 (fresh [bought ''X'' 3 100, bought ''X'' 3 100]))
     = Error Not_Enough_Quantity
   \<and> snd (sell market_X ''X'' 4 (fresh [bought ''X'' 3 100, bought ''X'' 3 100]))
     = fresh [bought ''X'' 3 100, bought ''X'' 3 100]"
  using sell_refused_iff_first_lot_short [of market_X "''X''" 120 4
          "fresh [bought ''X'' 3 100, bought ''X'' 3 100]"]
  by (simp add: market_X_def fresh_def bought_def)

text \<open>
  Claim C3 as stated ties the failure to no single entry covering the quantity. With
  entries of 2 and 10 shares, a sale of 5 fails although the second entry covers it.
\<close>

theorem sell_refused_despite_single_lot_counterexample:
  "fst (sell market_X ''X'' 5 (fresh [bought ''X'' 2 100, bought ''X'' 10 100]))
     = Error Not_Enough_Quantity
   \<and> list_ex (\<lambda>e. Stock e = ''X'' \<and> 5 \<le> Quantity e)
        (portfolio (fresh [bought ''X'' 2 100, bought ''X'' 10 100]))"
  by (simp add: sell_def market_X_def fresh_def bought_def)

text \<open>
  Claim C7. From a ledger without negative quantities, a buy (of at least one share,
  the minimum of the input widget at line 109), a sell and a clear each lead to a
  ledger without negative quantities. A sale that would take the first entry of the
  stock below zero ends in an error message with the portfolio and disk unchanged.
\<close>

theorem quantities_stay_nonneg:
  assumes "quantities_nonneg (portfolio st)"
  shows "(1 \<le> quantity_to_buy \<longrightarrow>
            quantities_nonneg (portfolio (snd (buy orc text quantity_to_buy today st))))
         \<and> quantities_nonneg (portfolio (snd (sell orc s q st)))
         \<and> quantities_nonneg (portfolio (snd (clear st)))
         \<and> (\<forall>e. find (\<lambda>x. Stock x = s) (portfolio st) = Some e \<longrightarrow> Quantity e - q < 0 \<longrightarrow>
               (\<exists>n. fst (sell orc s q st) = Error n) \<and> snd (sell orc s q st) = st)"
proof -
  have b: "1 \<le> quantity_to_buy \<Longrightarrow>
            quantities_nonneg (portfolio (snd (buy orc text quantity_to_buy today st)))"
    using assms by (auto simp: buy_def Let_def quantities_nonneg_def split: option.splits)
  have s: "quantities_nonneg (portfolio (snd (sell orc s q st)))"
  proof (cases "latest orc s")
    case None
    then show ?thesis using assms by (simp add: sell_def)
  next
    case (Some sp)
    obtain out es saved where r: "sell_loop s q sp (portfolio st) = (out, es, saved)"
      by (cases "sell_loop s q sp (portfolio st)") auto
    have "quantities_nonneg es"
      using sell_loop_nonneg[OF assms, of s q sp] r by simp
    then show ?thesis using Some r by (simp add: sell_def)
  qed
  have c: "quantities_nonneg (portfolio (snd (clear st)))"
    by (simp add: clear_def quantities_nonneg_def)
  have r: "(\<exists>n. fst (sell orc s q st) = Error n) \<and> snd (sell orc s q st) = st"
    if f: "find (\<lambda>x. Stock x = s) (portfolio st) = Some e" and lt: "Quantity e - q < 0" for e
  proof (cases "latest orc s")
    case None
    then show ?thesis by (simp add: sell_def)
  next
    case (Some sp)
    have "fst (sell_loop s q sp (portfolio st)) = Error Not_Enough_Quantity"
      unfolding sell_loop_outcome using f lt by simp
    then have "sell_loop s q sp (portfolio st) = (Error Not_Enough_Quantity, portfolio st, False)"
      by (rule sell_loop_refused)
    then show ?thesis using Some by (simp add: sell_def)
  qed
  show ?thesis using b s c r by blast
qed

theorem quantities_stay_nonneg_witness:
  "quantities_nonneg (portfolio (snd (buy market_X ''x'' 1 ''2024-01-03'' (fresh [bought ''X'' 3 100, bought ''X'' 9 100]))))
   \<and> quantities_nonneg (portfolio (snd (sell market_X ''X'' 4 (fresh [bought ''X'' 3 100, bought ''X'' 9 100]))))
   \<and> quantities_nonneg (portfolio (snd (clear (fresh [bought ''X'' 3 100, bought ''X'' 9 100]))))
   \<and> (\<exists>n. fst (sell market_X ''X'' 4 (fresh [bought ''X'' 3 100, bought ''X'' 9 100])) = Error n)
   \<and> snd (sell market_X ''X'' 4 (fresh [bought ''X'' 3 100, bought ''X'' 9 100]))
       = fresh [bought ''X'' 3 100, bought ''X'' 9 100]"
  using quantities_stay_nonneg [of "fresh [bought ''X'' 3 100, bought ''X'' 9 100]" 1
          market_X "''x''" "''2024-01-03''" "''X''" 4]
  by (simp add: quantities_nonneg_def fresh_def bought_def)

text \<open>
  Claim C10. When no entry of the ledger has the requested stock, the loop of lines
  142--158 ends without a message, without a change and without a save; so does the
  whole handler once the price was fetched.
\<close>

theorem sell_absent_stock_silent:
  assumes "s \<notin> Stock ` set (portfolio st)"
  shows "sell_loop s q sp (portfolio st) = (Silent, portfolio st, False)
         \<and> (latest orc s = Some sp \<longrightarrow> sell orc s q st = (Silent, st))"
  using assms by (simp add: sell_def sell_loop_absent)

theorem sell_absent_stock_silent_witness:
  "sell_loop ''X'' 1 120 (portfolio (fresh [bought ''Y'' 2 50])) = (Silent, [bought ''Y'' 2 50], False)
   \<and> sell market_X ''X'' 1 (fresh [bought ''Y'' 2 50]) = (Silent, fresh [bought ''Y'' 2 50])"
  using sell_absent_stock_silent [of "''X''" "fresh [bought ''Y'' 2 50]" 1 120 market_X]
  by (simp add: market_X_def fresh_def bought_def)

section \<open>Lemmas about aggregation\<close>

subsection \<open>On a priced ledger the loop does not raise\<close>

lemma total_invested_stock_priced:
  "priced es \<Longrightarrow> total_invested_stock es = Inr (cost_basis es)"
  by (induction es) (auto simp: priced_def cost_basis_def lot_cost_def)

lemma priced_stock_entries: "priced pf \<Longrightarrow> priced (stock_entries pf s)"
  by (induction pf) (auto simp: priced_def stock_entries_def)

lemma totals_step_priced:
  assumes "priced pf"
  shows "totals_step orc pf s (rows, ti, tpl) =
           Inr (rows @ [row_of orc pf s],
                ti + cost_basis (stock_entries pf s),
                tpl + profit_of orc pf s)"
  using total_invested_stock_priced[OF priced_stock_entries[OF assms], of s]
  by (simp add: totals_step_def valuation_def row_of_def value_of_def profit_of_def Let_def
           split: option.splits)

lemma totals_loop_priced:
  assumes "priced pf"
  shows "totals_loop orc pf stocks (rows, ti, tpl) =
           Inr (rows @ map (row_of orc pf) stocks,
                ti + (\<Sum>s\<leftarrow>stocks. cost_basis (stock_entries pf s)),
                tpl + (\<Sum>s\<leftarrow>stocks. profit_of orc pf s))"
proof (induction stocks arbitrary: rows ti tpl)
  case Nil
  then show ?case by simp
next
  case (Cons s stocks)
  show ?case
    by (simp add: totals_step_priced[OF assms] Cons.IH add.assoc)
qed

subsection \<open>Summing over the groups of an iteration\<close>

lemma sum_list_delta_absent:
  fixes c :: "'a::comm_monoid_add"
  shows "a \<notin> set stocks \<Longrightarrow> (\<Sum>s\<leftarrow>stocks. if a = s then c else 0) = 0"
  by (induction stocks) auto

lemma sum_list_delta:
  fixes c :: "'a::comm_monoid_add"
  assumes "distinct stocks" and "a \<in> set stocks"
  shows "(\<Sum>s\<leftarrow>stocks. if a = s then c else 0) = c"
  using assms by (induction stocks) (auto simp: sum_list_delta_absent)

lemma sum_over_groups:
  fixes f :: "lot \<Rightarrow> 'a::comm_monoid_add"
  assumes "distinct stocks" and "set (map Stock pf) \<subseteq> set stocks"
  shows "(\<Sum>s\<leftarrow>stocks. sum_list (map f (stock_entries pf s))) = sum_list (map f pf)"
  using assms(2)
proof (induction pf)
  case Nil
  then show ?case by (simp add: stock_entries_def)
next
  case (Cons e pf)
  have split: "sum_list (map f (stock_entries (e # pf) s)) =
                 (if Stock e = s then f e else 0) + sum_list (map f (stock_entries pf s))" for s
    by (simp add: stock_entries_def)
  have "(\<Sum>s\<leftarrow>stocks. sum_list (map f (stock_entries (e # pf) s))) =
          (\<Sum>s\<leftarrow>stocks. if Stock e = s then f e else 0)
            + (\<Sum>s\<leftarrow>stocks. sum_list (map f (stock_entries pf s)))"
    unfolding split by (simp add: sum_list_addf)
  also have "(\<Sum>s\<leftarrow>stocks. if Stock e = s then f e else 0) = f e"
    using sum_list_delta[OF assms(1), of "Stock e" "f e"] Cons.prems by simp
  also have "(\<Sum>s\<leftarrow>stocks. sum_list (map f (stock_entries pf s))) = sum_list (map f pf)"
    using Cons by simp
  finally show ?case by simp
qed

lemma groups_partition:
  assumes "distinct stocks" and "set (map Stock pf) \<subseteq> set stocks"
  shows "mset (concat (map (stock_entries pf) stocks)) = mset pf"
proof -
  have "(\<Sum>s\<leftarrow>stocks. mset (stock_entries pf s)) = mset pf"
    using sum_over_groups[OF assms, of "\<lambda>x. {#x#}"] by simp
  then show ?thesis
    by (simp add: mset_concat comp_def)
qed

lemma one_group_per_lot:
  assumes "set (map Stock pf) \<subseteq> set stocks" and "e \<in> set pf"
  shows "\<exists>!s. s \<in> set stocks \<and> e \<in> set (stock_entries pf s)"
  using assms by (auto simp: stock_entries_def)

lemma cost_basis_groups:
  assumes "iteration_of pf stocks"
  shows "(\<Sum>s\<leftarrow>stocks. cost_basis (stock_entries pf s)) = cost_basis pf"
  using sum_over_groups[of stocks pf lot_cost] assms
  by (simp add: iteration_of_def cost_basis_def)

lemma total_quantity_groups:
  assumes "iteration_of pf stocks"
  shows "(\<Sum>s\<leftarrow>stocks. total_quantity (stock_entries pf s)) = total_quantity pf"
  using sum_over_groups[of stocks pf Quantity] assms
  by (simp add: iteration_of_def total_quantity_def)

lemma calculate_totals_priced:
  assumes "iteration_of pf stocks" and "priced pf"
  shows "calculate_totals orc pf stocks =
           Inr (map (row_of orc pf) stocks, cost_basis pf, \<Sum>s\<leftarrow>stocks. profit_of orc pf s)"
  by (simp add: calculate_totals_def totals_loop_priced[OF assms(2)] cost_basis_groups[OF assms(1)])

lemma cost_basis_nonneg:
  "quantities_nonneg pf \<Longrightarrow> prices_nonneg pf \<Longrightarrow> 0 \<le> cost_basis pf"
  by (induction pf)
     (auto simp: quantities_nonneg_def prices_nonneg_def cost_basis_def lot_cost_def
           split: option.splits)

lemma nonneg_stock_entries:
  "quantities_nonneg pf \<Longrightarrow> quantities_nonneg (stock_entries pf s)"
  "prices_nonneg pf \<Longrightarrow> prices_nonneg (stock_entries pf s)"
  by (induction pf) (auto simp: quantities_nonneg_def prices_nonneg_def stock_entries_def)

lemma sum_list_skip_zero:
  fixes f :: "string \<Rightarrow> rat"
  shows "f s = 0 \<Longrightarrow> (\<Sum>t\<leftarrow>stocks. f t) = (\<Sum>t\<leftarrow>filter (\<lambda>t. t \<noteq> s) stocks. f t)"
  by (induction stocks) auto

subsection \<open>Evaluating the two-decimal format\<close>

text \<open>
  The recursion of \<open>digits10\<close> is unfolded only where the size of the number is known.
\<close>

declare digits10.simps [simp del]

lemma digit_values:
  "digit 0 = CHR ''0''" "digit 1 = CHR ''1''" "digit 2 = CHR ''2''" "digit 3 = CHR ''3''"
  "digit 4 = CHR ''4''" "digit 5 = CHR ''5''" "digit 6 = CHR ''6''" "digit 7 = CHR ''7''"
  "digit 8 = CHR ''8''" "digit 9 = CHR ''9''" "digit (Suc 0) = CHR ''1''"
  by code_simp+

lemma digits10_base: "n < 10 \<Longrightarrow> digits10 n = [digit n]"
  by (simp add: digits10.simps)

lemma digits10_rec: "10 \<le> n \<Longrightarrow> digits10 n = digits10 (n div 10) @ [digit (n mod 10)]"
  by (subst digits10.simps) simp

lemma floor_numeral_div: "\<lfloor>(numeral a :: rat) / numeral b\<rfloor> = numeral a div numeral b"
  using floor_divide_of_int_eq[of "numeral a" "numeral b", where ?'a = rat] by simp

lemmas fmt2_eval = fmt2_def round_half_even_def Let_def floor_numeral_div digits10_base
  digits10_rec digit_values

lemma fmt2_zero: "fmt2 0 = ''0.00''"
  by (simp add: fmt2_eval)

lemma fmt2_examples:
  "fmt2 500 = ''500.00''" "fmt2 (1 / 8) = ''0.12''" "fmt2 120 = ''120.00''"
  "fmt2 (959 / 8) = ''119.88''" "fmt2 10 = ''10.00''" "fmt2 20 = ''20.00''"
  by (simp_all add: fmt2_eval)

lemmas aggregation_eval = calculate_totals_def totals_step_def valuation_def stock_entries_def
  total_quantity_def market_X_def bought_def rupee_def

subsection \<open>The portfolio file\<close>

lemma lot_roundtrip: "lot_of_json (lot_to_json e) = Some e"
  by (cases "Buy_Price e") (simp_all add: lot_to_json_def price_to_json_def)

lemma lots_roundtrip: "lots_of_json (map lot_to_json pf) = Some pf"
  by (induction pf) (simp_all add: lot_roundtrip)

section \<open>Claims about aggregation\<close>

text \<open>
  Claim C5. On a priced ledger, for every order in which the set of stocks is
  iterated, \<open>calculate_totals\<close> returns one row per stock; the groups of line 47 hold
  every entry exactly once (as multisets the groups together are the ledger, and each
  entry lies in the group of exactly one stock); the amounts invested per stock add up
  to the sum of buy price times quantity over all entries, which is the returned
  \<open>total_invested\<close>; and the quantities of the rows add up to the quantity of the
  ledger. Arithmetic is exact (rationals).
\<close>

theorem aggregation_partitions_lots:
  assumes "iteration_of pf stocks" and "priced pf"
  shows "\<exists>rows total_invested total_profit_loss.
           calculate_totals orc pf stocks = Inr (rows, total_invested, total_profit_loss)
           \<and> map pos_Stock rows = stocks
           \<and> mset (concat (map (stock_entries pf) stocks)) = mset pf
           \<and> (\<forall>e\<in>set pf. \<exists>!s. s \<in> set stocks \<and> e \<in> set (stock_entries pf s))
           \<and> (\<forall>s\<in>set stocks.
                 total_invested_stock (stock_entries pf s) = Inr (cost_basis (stock_entries pf s)))
           \<and> (\<Sum>s\<leftarrow>stocks. cost_basis (stock_entries pf s)) = cost_basis pf
           \<and> total_invested = cost_basis pf
           \<and> sum_list (map pos_Quantity rows) = total_quantity pf"
proof -
  have sub: "set (map Stock pf) \<subseteq> set stocks" and dist: "distinct stocks"
    using assms(1) by (simp_all add: iteration_of_def)
  have names: "map pos_Stock (map (row_of orc pf) stocks) = stocks"
    by (simp add: row_of_def comp_def)
  have qty: "sum_list (map pos_Quantity (map (row_of orc pf) stocks)) = total_quantity pf"
    using total_quantity_groups[OF assms(1)] by (simp add: row_of_def comp_def)
  have one: "\<forall>e\<in>set pf. \<exists>!s. s \<in> set stocks \<and> e \<in> set (stock_entries pf s)"
    using one_group_per_lot[OF sub] by blast
  have inv: "\<forall>s\<in>set stocks.
               total_invested_stock (stock_entries pf s) = Inr (cost_basis (stock_entries pf s))"
    using total_invested_stock_priced[OF priced_stock_entries[OF assms(2)]] by blast
  show ?thesis
    using calculate_totals_priced[OF assms] names qty one inv
      groups_partition[OF dist sub] cost_basis_groups[OF assms(1)]
    by blast
qed

theorem aggregation_partitions_lots_witness:
  "\<exists>rows total_invested total_profit_loss.
     calculate_totals market_X [bought ''X'' 10 100, bought ''Y'' 5 100, bought ''X'' 2 110]
       [''Y'', ''X''] = Inr (rows, total_invested, total_profit_loss)
     \<and> map pos_Stock rows = [''Y'', ''X'']
     \<and> total_invested = 1720
     \<and> sum_list (map pos_Quantity rows) = 17"
proof -
  have it: "iteration_of [bought ''X'' 10 100, bought ''Y'' 5 100, bought ''X'' 2 110] [''Y'', ''X'']"
    by (auto simp: iteration_of_def bought_def)
  have pr: "priced [bought ''X'' 10 100, bought ''Y'' 5 100, bought ''X'' 2 110]"
    by (simp add: priced_def bought_def)
  have c: "cost_basis [bought ''X'' 10 100, bought ''Y'' 5 100, bought ''X'' 2 110] = 1720"
    by (simp add: cost_basis_def lot_cost_def bought_def)
  have q: "total_quantity [bought ''X'' 10 100, bought ''Y'' 5 100, bought ''X'' 2 110] = 17"
    by (simp add: total_quantity_def bought_def)
  from aggregation_partitions_lots [OF it pr, of market_X]
  obtain rows ti tpl where
    r: "calculate_totals market_X [bought ''X'' 10 100, bought ''Y'' 5 100, bought ''X'' 2 110]
          [''Y'', ''X''] = Inr (rows, ti, tpl)"
    and n: "map pos_Stock rows = [''Y'', ''X'']"
    and t: "ti = cost_basis [bought ''X'' 10 100, bought ''Y'' 5 100, bought ''X'' 2 110]"
    and s: "sum_list (map pos_Quantity rows)
              = total_quantity [bought ''X'' 10 100, bought ''Y'' 5 100, bought ''X'' 2 110]"
    by (elim exE conjE) (rule that, assumption+)
  show ?thesis
    unfolding r using n t s c q by simp
qed

text \<open>
  Claim C4. On a priced ledger, a stock \<open>s\<close> without a latest price gets a row whose
  current value is printed as its invested amount and whose profit is printed as
  zero; aggregation returns (no exception); the step of the loop for \<open>s\<close> leaves
  \<open>total_profit_loss\<close> as it was and adds the invested amount of \<open>s\<close> to
  \<open>total_invested\<close>, an amount that is not negative when no quantity and no buy price
  is negative; the returned profit is the sum over the other stocks.
\<close>

theorem unavailable_price_break_even:
  assumes "iteration_of pf stocks" and "priced pf"
    and "s \<in> set stocks" and "latest orc s = None"
  shows "\<exists>rows total_invested total_profit_loss.
           calculate_totals orc pf stocks = Inr (rows, total_invested, total_profit_loss)
           \<and> \<lparr>pos_Stock = s, pos_Quantity = total_quantity (stock_entries pf s),
               Total_Invested = rupee @ fmt2 (cost_basis (stock_entries pf s)),
               Current_Value = rupee @ fmt2 (cost_basis (stock_entries pf s)),
               Profit_Loss = rupee @ ''0.00''\<rparr> \<in> set rows
           \<and> (\<forall>rows0 ti0 tpl0.
                 totals_step orc pf s (rows0, ti0, tpl0) =
                   Inr (rows0 @
                          [\<lparr>pos_Stock = s, pos_Quantity = total_quantity (stock_entries pf s),
                            Total_Invested = rupee @ fmt2 (cost_basis (stock_entries pf s)),
                            Current_Value = rupee @ fmt2 (cost_basis (stock_entries pf s)),
                            Profit_Loss = rupee @ ''0.00''\<rparr>],
                        ti0 + cost_basis (stock_entries pf s),
                        tpl0))
           \<and> total_profit_loss = (\<Sum>t\<leftarrow>filter (\<lambda>t. t \<noteq> s) stocks. profit_of orc pf t)
           \<and> (quantities_nonneg pf \<and> prices_nonneg pf \<longrightarrow> 0 \<le> cost_basis (stock_entries pf s))"
proof -
  let ?row = "\<lparr>pos_Stock = s, pos_Quantity = total_quantity (stock_entries pf s),
                Total_Invested = rupee @ fmt2 (cost_basis (stock_entries pf s)),
                Current_Value = rupee @ fmt2 (cost_basis (stock_entries pf s)),
                Profit_Loss = rupee @ ''0.00''\<rparr>"
  have p0: "profit_of orc pf s = 0"
    using assms(4) by (simp add: profit_of_def)
  have row: "row_of orc pf s = ?row"
    using assms(4) by (simp add: row_of_def value_of_def profit_of_def fmt2_zero)
  have total: "(\<Sum>t\<leftarrow>stocks. profit_of orc pf t) =
                 (\<Sum>t\<leftarrow>filter (\<lambda>t. t \<noteq> s) stocks. profit_of orc pf t)"
    using p0 by (rule sum_list_skip_zero)
  have A: "calculate_totals orc pf stocks =
             Inr (map (row_of orc pf) stocks, cost_basis pf,
                  \<Sum>t\<leftarrow>filter (\<lambda>t. t \<noteq> s) stocks. profit_of orc pf t)"
    using calculate_totals_priced[OF assms(1,2), of orc] total by simp
  have B: "?row \<in> set (map (row_of orc pf) stocks)"
    using assms(3) row[symmetric] by simp
  have C: "\<forall>rows0 ti0 tpl0.
             totals_step orc pf s (rows0, ti0, tpl0) =
               Inr (rows0 @ [?row], ti0 + cost_basis (stock_entries pf s), tpl0)"
    using totals_step_priced[OF assms(2), of orc s] p0 row by simp
  have D: "quantities_nonneg pf \<and> prices_nonneg pf \<longrightarrow> 0 \<le> cost_basis (stock_entries pf s)"
    using cost_basis_nonneg nonneg_stock_entries by blast
  from A B C D show ?thesis by blast
qed

text \<open>
  The example of the specification: stock \<^verbatim>\<open>Y\<close> with 500 invested and no price.
\<close>

theorem unavailable_price_break_even_witness:
  "\<exists>rows total_invested total_profit_loss.
     calculate_totals market_X [bought ''X'' 10 100, bought ''Y'' 5 100, bought ''X'' 2 110]
       [''Y'', ''X''] = Inr (rows, total_invested, total_profit_loss)
     \<and> \<lparr>pos_Stock = ''Y'', pos_Quantity = 5,
         Total_Invested = rupee @ ''500.00'',
         Current_Value = rupee @ ''500.00'',
         Profit_Loss = rupee @ ''0.00''\<rparr> \<in> set rows
     \<and> total_profit_loss = 220"
proof -
  have it: "iteration_of [bought ''X'' 10 100, bought ''Y'' 5 100, bought ''X'' 2 110] [''Y'', ''X'']"
    by (auto simp: iteration_of_def bought_def)
  have pr: "priced [bought ''X'' 10 100, bought ''Y'' 5 100, bought ''X'' 2 110]"
    by (simp add: priced_def bought_def)
  have mem: "''Y'' \<in> set [''Y'', ''X'']"
    by simp
  have un: "latest market_X ''Y'' = None"
    by (simp add: market_X_def)
  have q: "total_quantity (stock_entries [bought ''X'' 10 100, bought ''Y'' 5 100, bought ''X'' 2 110] ''Y'') = 5"
    by (simp add: total_quantity_def stock_entries_def bought_def)
  have c: "cost_basis (stock_entries [bought ''X'' 10 100, bought ''Y'' 5 100, bought ''X'' 2 110] ''Y'') = 500"
    by (simp add: cost_basis_def lot_cost_def stock_entries_def bought_def)
  have p: "(\<Sum>t\<leftarrow>filter (\<lambda>t. t \<noteq> ''Y'') [''Y'', ''X''].
              profit_of market_X [bought ''X'' 10 100, bought ''Y'' 5 100, bought ''X'' 2 110] t) = 220"
    by (simp add: profit_of_def market_X_def total_quantity_def cost_basis_def lot_cost_def
          stock_entries_def bought_def)
  from unavailable_price_break_even [OF it pr mem un]
  obtain rows ti tpl where
    r: "calculate_totals market_X [bought ''X'' 10 100, bought ''Y'' 5 100, bought ''X'' 2 110]
          [''Y'', ''X''] = Inr (rows, ti, tpl)"
    and m: "\<lparr>pos_Stock = ''Y'',
             pos_Quantity = total_quantity (stock_entries [bought ''X'' 10 100, bought ''Y'' 5 100, bought ''X'' 2 110] ''Y''),
             Total_Invested = rupee @ fmt2 (cost_basis (stock_entries [bought ''X'' 10 100, bought ''Y'' 5 100, bought ''X'' 2 110] ''Y'')),
             Current_Value = rupee @ fmt2 (cost_basis (stock_entries [bought ''X'' 10 100, bought ''Y'' 5 100, bought ''X'' 2 110] ''Y'')),
             Profit_Loss = rupee @ ''0.00''\<rparr> \<in> set rows"
    and t: "tpl = (\<Sum>t\<leftarrow>filter (\<lambda>t. t \<noteq> ''Y'') [''Y'', ''X''].
              profit_of market_X [bought ''X'' 10 100, bought ''Y'' 5 100, bought ''X'' 2 110] t)"
    by (elim exE conjE) (rule that, assumption+)
  have m': "\<lparr>pos_Stock = ''Y'', pos_Quantity = 5,
             Total_Invested = rupee @ ''500.00'',
             Current_Value = rupee @ ''500.00'',
             Profit_Loss = rupee @ ''0.00''\<rparr> \<in> set rows"
    using m unfolding q c fmt2_examples .
  have t': "tpl = 220"
    using t unfolding p .
  from r m' t' show ?thesis by blast
qed

text \<open>
  Claim C6, as the code has it. Aggregation compares the stored symbol strings with
  \<^verbatim>\<open>==\<close>: there is one row per distinct stored string, and two entries fall into the
  group of the same row exactly when their stored symbols are equal. Upper-casing
  happens where the symbol is typed (line 89): the entry appended by a buy carries the
  upper-cased text.
\<close>

theorem grouping_by_exact_symbol:
  assumes "iteration_of pf stocks" and "priced pf"
  shows "\<exists>rows total_invested total_profit_loss.
           calculate_totals orc pf stocks = Inr (rows, total_invested, total_profit_loss)
           \<and> map pos_Stock rows = stocks
           \<and> distinct (map pos_Stock rows)
           \<and> set (map pos_Stock rows) = set (map Stock pf)
           \<and> (\<forall>e1\<in>set pf. \<forall>e2\<in>set pf.
                 (\<exists>row\<in>set rows. e1 \<in> set (stock_entries pf (pos_Stock row))
                                  \<and> e2 \<in> set (stock_entries pf (pos_Stock row)))
                 \<longleftrightarrow> Stock e1 = Stock e2)
           \<and> (upper text \<noteq> [] \<and> history_nonempty orc (upper text) \<longrightarrow>
                 map Stock (portfolio (snd (buy orc text quantity_to_buy today st)))
                   = map Stock (portfolio st) @ [upper text])"
proof -
  let ?rows = "map (row_of orc pf) stocks"
  have names: "map pos_Stock ?rows = stocks"
    by (simp add: row_of_def comp_def)
  have dist: "distinct (map pos_Stock ?rows)" and same: "set (map pos_Stock ?rows) = set (map Stock pf)"
    using assms(1) unfolding names by (simp_all add: iteration_of_def)
  have groups: "\<forall>e1\<in>set pf. \<forall>e2\<in>set pf.
                 (\<exists>row\<in>set ?rows. e1 \<in> set (stock_entries pf (pos_Stock row))
                                  \<and> e2 \<in> set (stock_entries pf (pos_Stock row)))
                 \<longleftrightarrow> Stock e1 = Stock e2"
  proof (intro ballI iffI)
    fix e1 e2
    assume "e1 \<in> set pf" "e2 \<in> set pf"
      and "\<exists>row\<in>set ?rows. e1 \<in> set (stock_entries pf (pos_Stock row))
                               \<and> e2 \<in> set (stock_entries pf (pos_Stock row))"
    then show "Stock e1 = Stock e2"
      by (auto simp: stock_entries_def)
  next
    fix e1 e2
    assume e: "e1 \<in> set pf" "e2 \<in> set pf" and eq: "Stock e1 = Stock e2"
    have "Stock e1 \<in> set stocks"
      using assms(1) e(1) by (auto simp: iteration_of_def)
    then have "row_of orc pf (Stock e1) \<in> set ?rows"
      by simp
    moreover have "e1 \<in> set (stock_entries pf (pos_Stock (row_of orc pf (Stock e1))))"
      "e2 \<in> set (stock_entries pf (pos_Stock (row_of orc pf (Stock e1))))"
      using e eq by (simp_all add: stock_entries_def row_of_def)
    ultimately show "\<exists>row\<in>set ?rows. e1 \<in> set (stock_entries pf (pos_Stock row))
                               \<and> e2 \<in> set (stock_entries pf (pos_Stock row))"
      by blast
  qed
  have b: "upper text \<noteq> [] \<and> history_nonempty orc (upper text) \<longrightarrow>
                 map Stock (portfolio (snd (buy orc text quantity_to_buy today st)))
                   = map Stock (portfolio st) @ [upper text]"
    by (simp add: buy_def Let_def split: option.splits)
  from calculate_totals_priced[OF assms, of orc] names dist same groups b
  show ?thesis by blast
qed

theorem grouping_by_exact_symbol_witness:
  "\<exists>rows total_invested total_profit_loss.
     calculate_totals market_X [bought ''X'' 10 100, bought ''Y'' 5 100, bought ''X'' 2 110]
       [''X'', ''Y''] = Inr (rows, total_invested, total_profit_loss)
     \<and> map pos_Stock rows = [''X'', ''Y'']
     \<and> map Stock (portfolio (snd (buy market_X ''x'' 3 ''2024-01-03'' (fresh [bought ''X'' 10 100]))))
         = [''X'', ''X'']"
proof -
  have it: "iteration_of [bought ''X'' 10 100, bought ''Y'' 5 100, bought ''X'' 2 110] [''X'', ''Y'']"
    by (auto simp: iteration_of_def bought_def)
  have pr: "priced [bought ''X'' 10 100, bought ''Y'' 5 100, bought ''X'' 2 110]"
    by (simp add: priced_def bought_def)
  have up: "upper ''x'' = ''X''"
    by code_simp
  have h: "upper ''x'' \<noteq> [] \<and> history_nonempty market_X (upper ''x'')"
    unfolding up by (simp add: market_X_def listed_def)
  from grouping_by_exact_symbol [OF it pr, of market_X "''x''" 3 "''2024-01-03''"
         "fresh [bought ''X'' 10 100]"]
  obtain rows ti tpl where
    r: "calculate_totals market_X [bought ''X'' 10 100, bought ''Y'' 5 100, bought ''X'' 2 110]
          [''X'', ''Y''] = Inr (rows, ti, tpl)"
    and n: "map pos_Stock rows = [''X'', ''Y'']"
    and b: "upper ''x'' \<noteq> [] \<and> history_nonempty market_X (upper ''x'') \<longrightarrow>
              map Stock (portfolio (snd (buy market_X ''x'' 3 ''2024-01-03'' (fresh [bought ''X'' 10 100]))))
                = map Stock (portfolio (fresh [bought ''X'' 10 100])) @ [upper ''x'']"
    by (elim exE conjE) (rule that, assumption+)
  have bb: "map Stock (portfolio (snd (buy market_X ''x'' 3 ''2024-01-03'' (fresh [bought ''X'' 10 100]))))
         = [''X'', ''X'']"
    using b h unfolding up by (simp add: fresh_def bought_def)
  show ?thesis
    unfolding r bb using n by simp
qed

text \<open>
  Claim C6 as stated puts entries whose symbols differ only in letter case into one
  row. A ledger holding \<^verbatim>\<open>infy\<close> and \<^verbatim>\<open>INFY\<close> gets two rows, in either order of
  iteration.
\<close>

theorem case_variants_counterexample:
  "calculate_totals market_X [bought ''infy'' 1 10, bought ''INFY'' 2 10] [''infy'', ''INFY''] =
     Inr ([\<lparr>pos_Stock = ''infy'', pos_Quantity = 1, Total_Invested = rupee @ ''10.00'',
            Current_Value = rupee @ ''10.00'', Profit_Loss = rupee @ ''0.00''\<rparr>,
           \<lparr>pos_Stock = ''INFY'', pos_Quantity = 2, Total_Invested = rupee @ ''20.00'',
            Current_Value = rupee @ ''20.00'', Profit_Loss = rupee @ ''0.00''\<rparr>],
          30, 0)
   \<and> calculate_totals market_X [bought ''infy'' 1 10, bought ''INFY'' 2 10] [''INFY'', ''infy''] =
     Inr ([\<lparr>pos_Stock = ''INFY'', pos_Quantity = 2, Total_Invested = rupee @ ''20.00'',
            Current_Value = rupee @ ''20.00'', Profit_Loss = rupee @ ''0.00''\<rparr>,
           \<lparr>pos_Stock = ''infy'', pos_Quantity = 1, Total_Invested = rupee @ ''10.00'',
            Current_Value = rupee @ ''10.00'', Profit_Loss = rupee @ ''0.00''\<rparr>],
          30, 0)
   \<and> upper ''infy'' = upper ''INFY''"
proof -
  have u: "upper ''infy'' = upper ''INFY''"
    by code_simp
  show ?thesis
    unfolding u by (simp add: aggregation_eval fmt2_examples fmt2_zero)
qed

text \<open>
  Claim C9, as the code has it. On a priced ledger the two scalars returned by
  \<open>calculate_totals\<close> are plain numbers (the invested sum and the sum of the profits),
  and each row carries the quantity as a plain integer, but its invested amount,
  current value and profit as text: the rupee sign followed by the number rounded to
  two decimals.
\<close>

theorem totals_rows_are_formatted_text:
  assumes "iteration_of pf stocks" and "priced pf"
  shows "\<exists>rows. calculate_totals orc pf stocks =
                   Inr (rows, cost_basis pf, \<Sum>s\<leftarrow>stocks. profit_of orc pf s)
           \<and> (\<forall>row\<in>set rows.
                 pos_Quantity row = total_quantity (stock_entries pf (pos_Stock row))
                 \<and> Total_Invested row = rupee @ fmt2 (cost_basis (stock_entries pf (pos_Stock row)))
                 \<and> Current_Value row = rupee @ fmt2 (value_of orc pf (pos_Stock row))
                 \<and> Profit_Loss row = rupee @ fmt2 (profit_of orc pf (pos_Stock row)))"
proof -
  have "\<forall>row\<in>set (map (row_of orc pf) stocks).
          pos_Quantity row = total_quantity (stock_entries pf (pos_Stock row))
          \<and> Total_Invested row = rupee @ fmt2 (cost_basis (stock_entries pf (pos_Stock row)))
          \<and> Current_Value row = rupee @ fmt2 (value_of orc pf (pos_Stock row))
          \<and> Profit_Loss row = rupee @ fmt2 (profit_of orc pf (pos_Stock row))"
    by (simp add: row_of_def)
  with calculate_totals_priced[OF assms, of orc] show ?thesis by blast
qed

theorem totals_rows_are_formatted_text_witness:
  "\<exists>rows. calculate_totals market_X [bought ''X'' 1 (1 / 8)] [''X''] = Inr (rows, 1 / 8, 959 / 8)
     \<and> (\<forall>row\<in>set rows.
           pos_Quantity row = 1
           \<and> Total_Invested row = rupee @ ''0.12''
           \<and> Current_Value row = rupee @ ''120.00''
           \<and> Profit_Loss row = rupee @ ''119.88'')"
proof -
  have it: "iteration_of [bought ''X'' 1 (1 / 8)] [''X'']"
    by (simp add: iteration_of_def bought_def)
  have pr: "priced [bought ''X'' 1 (1 / 8)]"
    by (simp add: priced_def bought_def del: not_None_eq)
  have q: "total_quantity (stock_entries [bought ''X'' 1 (1 / 8)] s) = 1" if "s = ''X''" for s
    using that by (simp add: total_quantity_def stock_entries_def bought_def)
  have c: "cost_basis (stock_entries [bought ''X'' 1 (1 / 8)] s) = 1 / 8" if "s = ''X''" for s
    using that by (simp add: cost_basis_def lot_cost_def stock_entries_def bought_def)
  have c': "cost_basis [bought ''X'' 1 (1 / 8)] = 1 / 8"
    by (simp add: cost_basis_def lot_cost_def bought_def)
  have v: "value_of market_X [bought ''X'' 1 (1 / 8)] s = 120" if "s = ''X''" for s
    using that by (simp add: value_of_def market_X_def q)
  have p: "profit_of market_X [bought ''X'' 1 (1 / 8)] s = 959 / 8" if "s = ''X''" for s
    using that by (simp add: profit_of_def market_X_def q c)
  from totals_rows_are_formatted_text [OF it pr, of market_X]
  obtain rows where
    r: "calculate_totals market_X [bought ''X'' 1 (1 / 8)] [''X''] =
          Inr (rows, cost_basis [bought ''X'' 1 (1 / 8)],
               \<Sum>s\<leftarrow>[''X'']. profit_of market_X [bought ''X'' 1 (1 / 8)] s)"
    and a: "\<forall>row\<in>set rows.
              pos_Quantity row = total_quantity (stock_entries [bought ''X'' 1 (1 / 8)] (pos_Stock row))
              \<and> Total_Invested row = rupee @ fmt2 (cost_basis (stock_entries [bought ''X'' 1 (1 / 8)] (pos_Stock row)))
              \<and> Current_Value row = rupee @ fmt2 (value_of market_X [bought ''X'' 1 (1 / 8)] (pos_Stock row))
              \<and> Profit_Loss row = rupee @ fmt2 (profit_of market_X [bought ''X'' 1 (1 / 8)] (pos_Stock row))"
    by (elim exE conjE) (rule that, assumption+)
  have names: "\<forall>row\<in>set rows. pos_Stock row = ''X''"
    using calculate_totals_priced[OF it pr, of market_X] r by (auto simp: row_of_def)
  have r': "calculate_totals market_X [bought ''X'' 1 (1 / 8)] [''X''] = Inr (rows, 1 / 8, 959 / 8)"
    using r by (simp add: c' p)
  have a': "\<forall>row\<in>set rows.
              pos_Quantity row = 1
              \<and> Total_Invested row = rupee @ ''0.12''
              \<and> Current_Value row = rupee @ ''120.00''
              \<and> Profit_Loss row = rupee @ ''119.88''"
    using a names by (simp add: q c v p fmt2_examples)
  from r' a' show ?thesis by blast
qed

text \<open>
  Claim C9 as stated has plain numbers in every field of a row. One share bought at
  0.125 gives the invested amount as the seven bytes of the rupee sign and \<^verbatim>\<open>0.12\<close>,
  while the scalar is 1/8.
\<close>

theorem formatted_row_counterexample:
  "calculate_totals market_X [bought ''Z'' 1 (1 / 8)] [''Z''] =
     Inr ([\<lparr>pos_Stock = ''Z'', pos_Quantity = 1,
            Total_Invested = [CHR 0xE2, CHR 0x82, CHR 0xB9, CHR ''0'', CHR ''.'', CHR ''1'', CHR ''2''],
            Current_Value = [CHR 0xE2, CHR 0x82, CHR 0xB9, CHR ''0'', CHR ''.'', CHR ''1'', CHR ''2''],
            Profit_Loss = [CHR 0xE2, CHR 0x82, CHR 0xB9, CHR ''0'', CHR ''.'', CHR ''0'', CHR ''0'']\<rparr>],
          1 / 8, 0)"
  by (simp add: aggregation_eval fmt2_examples fmt2_zero)

section \<open>Claim about buying without a price\<close>

text \<open>
  Claim C2 says that a buy without a price fails and appends nothing. In the code the
  test \<^verbatim>\<open>latest_price is not None\<close> (line 98) guards only the headline. With a
  history but no latest price for \<^verbatim>\<open>Y\<close>, pressing Buy appends an entry whose buy
  price is \<^verbatim>\<open>None\<close>, saves it, and only then raises \<^verbatim>\<open>TypeError\<close> at line 119. The
  sell handler, in the same situation, shows its error and changes nothing; and the
  next aggregation of the new ledger raises \<^verbatim>\<open>TypeError\<close> at line 49.
\<close>

theorem buy_without_price_appends_and_saves:
  "buy market_X ''y'' 1 ''2024-01-03'' (fresh []) =
     (Raises TypeError,
      \<lparr>portfolio = [\<lparr>Stock = ''Y'', Quantity = 1, Buy_Price = None, Buy_Date = ''2024-01-03''\<rparr>],
       store = \<lparr>content = Some (JArr [JObj [(''Stock'', JStr ''Y''), (''Quantity'', JInt 1),
                                            (''Buy Price'', JNull), (''Buy Date'', JStr ''2024-01-03'')]]),
                writes = 1\<rparr>\<rparr>)
   \<and> latest market_X ''Y'' = None
   \<and> sell market_X ''Y'' 1 (fresh []) = (Error Failed_To_Fetch_Price, fresh [])
   \<and> calculate_totals market_X
        [\<lparr>Stock = ''Y'', Quantity = 1, Buy_Price = None, Buy_Date = ''2024-01-03''\<rparr>] [''Y'']
       = Inl TypeError"
proof -
  have up: "upper ''y'' = ''Y''"
    by code_simp
  show ?thesis
    by (simp add: buy_def up Let_def market_X_def listed_def fresh_def save_portfolio_def
          json_dump_def lot_to_json_def price_to_json_def sell_def calculate_totals_def
          totals_step_def stock_entries_def)
qed

section \<open>Claim about persistence\<close>

text \<open>
  Claim C8. Loading what \<open>save_portfolio\<close> wrote gives back the ledger, entry by
  entry and field by field, whatever the disk held before; the empty ledger is written
  as the empty JSON array (the file exists and does not hold \<^verbatim>\<open>null\<close>).
\<close>

theorem load_save_roundtrip:
  "load_portfolio (save_portfolio pf d) = Inr pf
   \<and> content (save_portfolio [] d) = Some (JArr [])"
  by (simp add: load_portfolio_def save_portfolio_def json_load_def json_dump_def lots_roundtrip)

end
